theory Spec2Isabelle
  imports Main
begin

section \<open>Python values, exceptions and model responses\<close>

text \<open>
  The agents of chapters 06 to 09 are Python programs over duck-typed values. Only the
  shapes the code inspects are modelled. An exception that \<open>except Exception as e\<close>
  can catch is a value carrying its class name and the text \<open>str(e)\<close>.
\<close>

datatype py_exception = PyException (exc_class: string) (exc_str: string)

text \<open>Values stored in a content block or passed as a tool argument.\<close>

datatype pyval = PStr string | PInt int | PBool bool | PNone

fun type_name :: "pyval \<Rightarrow> string" where
  "type_name (PStr _) = ''str''"
| "type_name (PInt _) = ''int''"
| "type_name (PBool _) = ''bool''"
| "type_name PNone = ''NoneType''"

text \<open>
  One element of a list-valued \<open>response.content\<close>: a \<open>str\<close>, a \<open>dict\<close>, or any
  other object (which \<open>extract_response_text\<close> passes over).
\<close>

datatype block = BStr string | BDict "string \<rightharpoonup> pyval" | BOther

text \<open>
  \<open>response.content\<close>: a \<open>str\<close>, a \<open>list\<close>, or anything else; the last is carried with
  the text that \<open>str(response.content)\<close> renders.
\<close>

datatype content = CStr string | CList "block list" | COther string

text \<open>A tool-call request \<open>{'name': ..., 'args': ..., 'id': ...}\<close> of an assistant message.\<close>

record tool_call =
  tc_name :: string
  tc_args :: "string \<rightharpoonup> pyval"
  tc_id :: "string option"

text \<open>
  What a model call hands back, as \<open>extract_response_text\<close> and the agents probe it:
  \<^item> \<open>Response c tcs\<close>: an object with a \<open>content\<close> attribute. The test
    \<open>hasattr(response, 'tool_calls') and response.tool_calls\<close> is false for a missing
    attribute, for \<open>None\<close> and for the empty list alike; all three are \<open>tcs = []\<close>.
  \<^item> \<open>PlainString s\<close>: a Python \<open>str\<close>; it has no \<open>content\<close> attribute and \<open>str(s)\<close>
    is \<open>s\<close>.
  \<^item> \<open>Opaque s\<close>: any other object without \<open>content\<close> and without \<open>tool_calls\<close>,
    carried with the text \<open>str\<close> renders for it.
\<close>

datatype raw_response =
    Response content "tool_call list"
  | PlainString string
  | Opaque string

section \<open>Response normalizer: \<open>extract_response_text\<close>\<close>

text \<open>
  \<open>src/utils/response.py\<close> of chapter 07 (the same function is defined in chapter 06's
  \<open>langchain_log_analyzer.py\<close>).

  The loop over the blocks appends to \<open>text_parts\<close>: \<open>block['text']\<close> for a dict that
  has the key \<open>'text'\<close>, the block itself for a \<open>str\<close>, nothing otherwise.
\<close>

fun collect_text_parts :: "block list \<Rightarrow> pyval list \<Rightarrow> pyval list" where
  "collect_text_parts [] text_parts = text_parts"
| "collect_text_parts (b # bs) text_parts =
     collect_text_parts bs
       (case b of
          BDict d \<Rightarrow> (case d ''text'' of Some v \<Rightarrow> text_parts @ [v] | None \<Rightarrow> text_parts)
        | BStr s \<Rightarrow> text_parts @ [PStr s]
        | BOther \<Rightarrow> text_parts)"

text \<open>Decimal rendering of an index, as it appears in the message of \<open>str.join\<close>.\<close>

fun show_nat :: "nat \<Rightarrow> string" where
  "show_nat n =
     (if n < 10 then [''0123456789'' ! n]
      else show_nat (n div 10) @ [''0123456789'' ! (n mod 10)])"

declare show_nat.simps [simp del]

text \<open>
  \<open>''.join(text_parts)\<close>: the concatenation when every item is a \<open>str\<close>; otherwise
  \<open>TypeError\<close> for the first item that is not, named by its index \<open>i\<close>.
\<close>

fun str_join :: "nat \<Rightarrow> pyval list \<Rightarrow> py_exception + string" where
  "str_join i [] = Inr []"
| "str_join i (PStr s # ps) =
     (case str_join (Suc i) ps of Inl e \<Rightarrow> Inl e | Inr r \<Rightarrow> Inr (s @ r))"
| "str_join i (v # ps) =
     Inl (PyException ''TypeError''
            (''sequence item '' @ show_nat i @ '': expected str instance, ''
               @ type_name v @ '' found''))"

fun extract_response_text :: "raw_response \<Rightarrow> py_exception + string" where
  "extract_response_text (Response (CStr s) tcs) = Inr s"
| "extract_response_text (Response (CList blocks) tcs) =
     str_join 0 (collect_text_parts blocks [])"
| "extract_response_text (Response (COther rendering) tcs) = Inr rendering"
| "extract_response_text (PlainString s) = Inr s"
| "extract_response_text (Opaque rendering) = Inr rendering"

text \<open>
  The textual portion of a block in the words of the specification: the string itself
  for a plain string, the string under the text field for a structured block, and none
  for a block that carries no text.
\<close>

fun textual_portion :: "block \<Rightarrow> string option" where
  "textual_portion (BStr s) = Some s"
| "textual_portion (BDict d) = (case d ''text'' of Some (PStr s) \<Rightarrow> Some s | _ \<Rightarrow> None)"
| "textual_portion BOther = None"

text \<open>A block is well formed when its text field, if it has one, holds a string.\<close>

fun text_field_is_str :: "block \<Rightarrow> bool" where
  "text_field_is_str (BDict d) = (case d ''text'' of Some (PStr s) \<Rightarrow> True | Some _ \<Rightarrow> False | None \<Rightarrow> True)"
| "text_field_is_str _ = True"

section \<open>Tools, messages and the model transport\<close>

text \<open>
  A registered tool: its \<open>name\<close> and what \<open>tool.invoke(args)\<close> does, which is to
  return a text or to raise. The tools themselves (\<open>tools/log_reader.py\<close>,
  \<open>tools/actions.py\<close>) are collaborators of the agents and appear as parameters here.
  A tool returns a text, so \<open>str(result)\<close> and the result formatted into a prompt are
  that text.
\<close>

record tool =
  tool_name :: string
  invoke :: "(string \<rightharpoonup> pyval) \<Rightarrow> py_exception + string"

datatype message =
    SystemMessage string
  | HumanMessage string
  | AIMessage content "tool_call list"
  | ToolMessage string "string option"

text \<open>
  What is passed to \<open>invoke\<close> of the model: a prompt string (chapter 08) or a message
  sequence. The role tuples \<open>("system", s)\<close> and \<open>("user", s)\<close> of chapter 07 are the
  system and human messages.
\<close>

datatype llm_input = PromptText string | PromptMessages "message list"

text \<open>
  The fields every \<open>LogAnalyzerAgent\<close> sets in \<open>__init__\<close>. The model transport is a
  black box that answers an input with a response or raises; \<open>system_prompt\<close> is the
  text \<open>Config.get_system_prompt()\<close> returns.
\<close>

record agent =
  tools :: "tool list"
  llm :: "llm_input \<Rightarrow> py_exception + raw_response"
  llm_with_tools :: "llm_input \<Rightarrow> py_exception + raw_response"
  system_prompt :: string

text \<open>
  \<open>self.prompt.format_messages(chat_history=..., input=...)\<close> for the template
  \<open>[("system", system prompt), MessagesPlaceholder("chat_history"), ("user", "{input}")]\<close>.
\<close>

definition format_messages :: "string \<Rightarrow> message list \<Rightarrow> string \<Rightarrow> message list" where
  "format_messages sys_prompt chat_history user_input =
     SystemMessage sys_prompt # chat_history @ [HumanMessage user_input]"

text \<open>
  \<open>hasattr(response, 'tool_calls') and response.tool_calls\<close>: the content and the
  requests of a response that asks for tools, \<open>None\<close> when the test is false.
\<close>

fun tool_calls_requested :: "raw_response \<Rightarrow> (content \<times> tool_call list) option" where
  "tool_calls_requested (Response c []) = None"
| "tool_calls_requested (Response c (tc # tcs)) = Some (c, tc # tcs)"
| "tool_calls_requested (PlainString s) = None"
| "tool_calls_requested (Opaque s) = None"

text \<open>
  The inner search \<open>for tool in self.tools: if tool.name == tool_name: ...; break\<close>: the
  first registered tool of that name.
\<close>

fun find_tool :: "tool list \<Rightarrow> string \<Rightarrow> tool option" where
  "find_tool [] n = None"
| "find_tool (t # ts) n = (if tool_name t = n then Some t else find_tool ts n)"

text \<open>The text of \<open>f"Error processing query: {str(e)}"\<close>.\<close>

definition error_msg :: "py_exception \<Rightarrow> string" where
  "error_msg e = ''Error processing query: '' @ exc_str e"

text \<open>
  The \<open>try ... except Exception as e\<close> of every \<open>process_query\<close>: the text the body
  returned, or the error message.
\<close>

fun rendered :: "py_exception + string \<Rightarrow> string" where
  "rendered (Inr text) = text"
| "rendered (Inl e) = error_msg e"

definition nl :: string where
  "nl = [CHR 0x0A]"

section \<open>Chapter 09: the iterative agent loop\<close>

text \<open>
  The tool-call loop of \<open>_handle_tool_calls\<close> (\<open>code/09/src/agents/log_analyzer.py\<close>):
  a request whose name is registered appends one \<open>ToolMessage\<close>, with the result or
  with \<open>"Error: " + str(e)\<close> when the tool raised; a request whose name is not
  registered fails the test \<open>if tool_func:\<close> and appends nothing.
\<close>

fun execute_tool_calls :: "tool list \<Rightarrow> tool_call list \<Rightarrow> message list \<Rightarrow> message list" where
  "execute_tool_calls ts [] tool_messages = tool_messages"
| "execute_tool_calls ts (tc # tcs) tool_messages =
     execute_tool_calls ts tcs
       (case find_tool ts (tc_name tc) of
          None \<Rightarrow> tool_messages
        | Some tool_func \<Rightarrow>
            (case invoke tool_func (tc_args tc) of
               Inr result \<Rightarrow> tool_messages @ [ToolMessage result (tc_id tc)]
             | Inl e \<Rightarrow> tool_messages @ [ToolMessage (''Error: '' @ exc_str e) (tc_id tc)]))"

text \<open>
  The \<open>while iteration < max_iterations\<close> loop. \<open>calls\<close> records every input handed to
  the model so far, in order; the function returns it with the outcome. An outcome is the
  text returned, or the exception that leaves \<open>_handle_tool_calls\<close>.
\<close>

function agent_loop ::
  "'a agent_scheme \<Rightarrow> nat \<Rightarrow> nat \<Rightarrow> raw_response \<Rightarrow> message list \<Rightarrow> llm_input list
     \<Rightarrow> (py_exception + string) \<times> llm_input list" where
  "agent_loop ag max_iter iteration current_response messages calls =
     (if iteration < max_iter then
        (case tool_calls_requested current_response of
           None \<Rightarrow> (extract_response_text current_response, calls)
         | Some (c, tcs) \<Rightarrow>
             (let tool_messages = execute_tool_calls (tools ag) tcs [];
                  messages' = messages @ [AIMessage c tcs] @ tool_messages
              in (case llm_with_tools ag (PromptMessages messages') of
                    Inl e \<Rightarrow> (Inl e, calls @ [PromptMessages messages'])
                  | Inr next_response \<Rightarrow>
                      agent_loop ag max_iter (Suc iteration) next_response messages'
                        (calls @ [PromptMessages messages']))))
      else (extract_response_text current_response, calls))"
  by pat_completeness auto
termination
  by (relation "measure (\<lambda>(ag, max_iter, iteration, r, ms, cs). max_iter - iteration)") auto

declare agent_loop.simps [simp del]

text \<open>The cap the loop is written with: \<open>max_iterations = 5\<close>.\<close>

definition max_iterations :: nat where
  "max_iterations = 5"

text \<open>
  \<open>_handle_tool_calls\<close> with the cap of its loop as a parameter: the messages are
  formatted anew, the counter starts at 0 and the loop runs on the response given.
\<close>

definition handle_tool_calls_cap ::
  "nat \<Rightarrow> 'a agent_scheme \<Rightarrow> raw_response \<Rightarrow> string \<Rightarrow> message list \<Rightarrow> llm_input list
     \<Rightarrow> (py_exception + string) \<times> llm_input list" where
  "handle_tool_calls_cap cap ag response user_input chat_history calls =
     agent_loop ag cap 0 response
       (format_messages (system_prompt ag) chat_history user_input) calls"

text \<open>
  \<open>process_query\<close> with the cap of the loop as a parameter: the first model call, then
  \<open>_handle_tool_calls\<close> when the response asks for tools. \<open>chat_history\<close> is \<open>None\<close>
  when the caller omits it. The method returns the text; the inputs handed to the model
  during the call are returned with it.
\<close>

definition process_query_cap ::
  "nat \<Rightarrow> 'a agent_scheme \<Rightarrow> string \<Rightarrow> message list option \<Rightarrow> string \<times> llm_input list" where
  "process_query_cap cap ag user_input chat_history_arg =
     (let chat_history = (case chat_history_arg of None \<Rightarrow> [] | Some h \<Rightarrow> h);
          messages = format_messages (system_prompt ag) chat_history user_input;
          (outcome, calls) =
            (case llm_with_tools ag (PromptMessages messages) of
               Inl e \<Rightarrow> (Inl e, [PromptMessages messages])
             | Inr response \<Rightarrow>
                 (case tool_calls_requested response of
                    Some _ \<Rightarrow>
                      handle_tool_calls_cap cap ag response user_input chat_history
                        [PromptMessages messages]
                  | None \<Rightarrow> (extract_response_text response, [PromptMessages messages])))
      in (rendered outcome, calls))"

text \<open>\<open>process_query\<close> of chapter 09: the loop runs with the cap it is written with.\<close>

definition process_query09 ::
  "'a agent_scheme \<Rightarrow> string \<Rightarrow> message list option \<Rightarrow> string \<times> llm_input list" where
  "process_query09 = process_query_cap max_iterations"

section \<open>Chapter 08: one round of tools, then a final analysis\<close>

text \<open>
  The tool-call loop of \<open>_handle_tool_calls\<close> (\<open>code/08/src/agents/log_analyzer.py\<close>):
  each entry of \<open>tool_results\<close> is the pair of \<open>'tool'\<close> and \<open>'result'\<close>.
\<close>

fun collect_tool_results ::
  "tool list \<Rightarrow> tool_call list \<Rightarrow> (string \<times> string) list \<Rightarrow> (string \<times> string) list" where
  "collect_tool_results ts [] tool_results = tool_results"
| "collect_tool_results ts (tc # tcs) tool_results =
     collect_tool_results ts tcs
       (case find_tool ts (tc_name tc) of
          None \<Rightarrow> tool_results
        | Some tool_func \<Rightarrow>
            (case invoke tool_func (tc_args tc) of
               Inr result \<Rightarrow> tool_results @ [(tc_name tc, result)]
             | Inl e \<Rightarrow> tool_results @ [(tc_name tc, ''Error: '' @ exc_str e)]))"

text \<open>The loop \<open>for tr in tool_results: analysis_prompt += f"\n{tr['tool']}:\n{tr['result']}\n"\<close>.\<close>

fun append_tool_results :: "(string \<times> string) list \<Rightarrow> string \<Rightarrow> string" where
  "append_tool_results [] analysis_prompt = analysis_prompt"
| "append_tool_results ((t, r) # trs) analysis_prompt =
     append_tool_results trs (analysis_prompt @ nl @ t @ '':'' @ nl @ r @ nl)"

definition analysis_prompt_of :: "string \<Rightarrow> (string \<times> string) list \<Rightarrow> string" where
  "analysis_prompt_of user_input tool_results =
     append_tool_results tool_results
       (''User asked: '' @ user_input @ nl @ nl @ ''Tool results:'' @ nl)
     @ nl @ ''Please analyze these results and answer the user's question.''"

text \<open>
  \<open>_handle_tool_calls\<close>, given \<open>response.tool_calls\<close>: the tools run, then \<open>self.llm\<close>
  is asked for the final analysis.
\<close>

definition handle_tool_calls08 ::
  "'a agent_scheme \<Rightarrow> tool_call list \<Rightarrow> string \<Rightarrow> llm_input list
     \<Rightarrow> (py_exception + string) \<times> llm_input list" where
  "handle_tool_calls08 ag tool_calls user_input calls =
     (let tool_results = collect_tool_results (tools ag) tool_calls [];
          analysis_prompt = analysis_prompt_of user_input tool_results
      in (case llm ag (PromptText analysis_prompt) of
            Inl e \<Rightarrow> (Inl e, calls @ [PromptText analysis_prompt])
          | Inr final_response \<Rightarrow>
              (extract_response_text final_response, calls @ [PromptText analysis_prompt])))"

definition process_query08 ::
  "'a agent_scheme \<Rightarrow> string \<Rightarrow> message list option \<Rightarrow> string \<times> llm_input list" where
  "process_query08 ag user_input chat_history_arg =
     (let chat_history = (case chat_history_arg of None \<Rightarrow> [] | Some h \<Rightarrow> h);
          messages = format_messages (system_prompt ag) chat_history user_input;
          (outcome, calls) =
            (case llm_with_tools ag (PromptMessages messages) of
               Inl e \<Rightarrow> (Inl e, [PromptMessages messages])
             | Inr response \<Rightarrow>
                 (case tool_calls_requested response of
                    Some (c, tcs) \<Rightarrow>
                      handle_tool_calls08 ag tcs user_input [PromptMessages messages]
                  | None \<Rightarrow> (extract_response_text response, [PromptMessages messages])))
      in (rendered outcome, calls))"

section \<open>Chapter 07: the agent that owns its conversation memory\<close>

text \<open>
  \<open>self.chat_history\<close> refers to an \<open>InMemoryChatMessageHistory\<close> object. Objects live in
  a store: a reference is a number, and the store gives the messages each history holds.
\<close>

type_synonym store = "nat \<Rightarrow> message list"

record agent07 = agent +
  chat_history :: nat
  session_id :: string

text \<open>The factory \<open>lambda session_id: self.chat_history\<close> given to the history wrapper.\<close>

definition get_session_history :: "'a agent07_scheme \<Rightarrow> string \<Rightarrow> nat" where
  "get_session_history ag sid = chat_history ag"

text \<open>\<open>get_history\<close>, and the snapshot of the history a session key resolves to.\<close>

definition get_history :: "'a agent07_scheme \<Rightarrow> store \<Rightarrow> message list" where
  "get_history ag st = st (chat_history ag)"

definition session_snapshot :: "'a agent07_scheme \<Rightarrow> store \<Rightarrow> string \<Rightarrow> message list" where
  "session_snapshot ag st sid = st (get_session_history ag sid)"

text \<open>
  \<open>self.chain_with_history.invoke({"input": user_input}, config=... session_id ...)\<close>.
  \<open>RunnableWithMessageHistory\<close> is a class of the LangChain library, set up in
  \<open>__init__\<close> with the factory above, \<open>input_messages_key="input"\<close> and
  \<open>history_messages_key="chat_history"\<close>. One call of it does three things:
  \<^item> it composes the prompt of the system text, the messages of the history the factory
    returns for the session key, and the new input (\<open>chain_input\<close>);
  \<^item> it hands the prompt to the model bound to the tools;
  \<^item> when the model has answered, it appends to that same history the input as a human
    message and the answer as an assistant message (\<open>wrapper_record\<close>). When the model
    raises, nothing is appended.
\<close>

definition chain_input :: "'a agent07_scheme \<Rightarrow> store \<Rightarrow> string \<Rightarrow> string \<Rightarrow> llm_input" where
  "chain_input ag st user_input sid =
     PromptMessages
       (format_messages (system_prompt ag) (st (get_session_history ag sid)) user_input)"

text \<open>
  What the wrapper appends after a run: the human message of the input and the answer of
  the model, a message object as it is (with its tool-call requests) and a string as an
  assistant message. An answer that is neither is nothing the wrapper can record.
\<close>

fun wrapper_record :: "string \<Rightarrow> raw_response \<Rightarrow> message list" where
  "wrapper_record user_input (Response c tcs) = [HumanMessage user_input, AIMessage c tcs]"
| "wrapper_record user_input (PlainString s) = [HumanMessage user_input, AIMessage (CStr s) []]"
| "wrapper_record user_input (Opaque s) = []"

definition chain_with_history_invoke ::
  "'a agent07_scheme \<Rightarrow> store \<Rightarrow> string \<Rightarrow> string \<Rightarrow> (py_exception + raw_response) \<times> store" where
  "chain_with_history_invoke ag st user_input sid =
     (let history = get_session_history ag sid
      in (case llm_with_tools ag (chain_input ag st user_input sid) of
            Inl e \<Rightarrow> (Inl e, st)
          | Inr response \<Rightarrow>
              (Inr response,
               st (history := st history @ wrapper_record user_input response))))"

text \<open>\<open>self.chat_history.add_user_message\<close> and \<open>add_ai_message\<close>.\<close>

definition add_user_message :: "nat \<Rightarrow> string \<Rightarrow> store \<Rightarrow> store" where
  "add_user_message ref text st = st (ref := st ref @ [HumanMessage text])"

definition add_ai_message :: "nat \<Rightarrow> string \<Rightarrow> store \<Rightarrow> store" where
  "add_ai_message ref text st = st (ref := st ref @ [AIMessage (CStr text) []])"

text \<open>
  The tool-call loop of chapter 07's \<open>_handle_tool_calls\<close>. \<open>tool.invoke\<close> stands in no
  \<open>try\<close> here: an exception of a tool leaves the loop at once. (The \<open>print\<close> calls write
  to the terminal only.)
\<close>

fun run_tool_calls07 ::
  "tool list \<Rightarrow> tool_call list \<Rightarrow> (string \<times> string) list
     \<Rightarrow> py_exception + (string \<times> string) list" where
  "run_tool_calls07 ts [] tool_results = Inr tool_results"
| "run_tool_calls07 ts (tc # tcs) tool_results =
     (case find_tool ts (tc_name tc) of
        None \<Rightarrow> run_tool_calls07 ts tcs tool_results
      | Some t \<Rightarrow>
          (case invoke t (tc_args tc) of
             Inl e \<Rightarrow> Inl e
           | Inr result \<Rightarrow> run_tool_calls07 ts tcs (tool_results @ [(tc_name tc, result)])))"

text \<open>\<open>sep.join(parts)\<close> for strings.\<close>

fun sep_join :: "string \<Rightarrow> string list \<Rightarrow> string" where
  "sep_join sep [] = []"
| "sep_join sep [x] = x"
| "sep_join sep (x # y # ys) = x @ sep @ sep_join sep (y # ys)"

definition final_input07 :: "string \<Rightarrow> string \<Rightarrow> (string \<times> string) list \<Rightarrow> llm_input" where
  "final_input07 sys_prompt user_input tool_results =
     (let tool_context =
            sep_join (nl @ nl)
              (map (\<lambda>(n, r). ''Tool: '' @ n @ nl @ ''Result:'' @ nl @ r) tool_results)
      in PromptMessages
           [SystemMessage
              (sys_prompt @ nl @ nl
                 @ ''You used tools to get information. Now provide a clear, concise answer based on the tool results. ''
                 @ ''Do not generate fake data - only analyze what you actually received.''),
            HumanMessage
              (''User asked: '' @ user_input @ nl @ nl @ ''Tool results:'' @ nl @ tool_context
                 @ nl @ nl @ ''Please analyze these results and answer the user's question.'')])"

text \<open>
  \<open>_handle_tool_calls\<close> of chapter 07, given \<open>response.tool_calls\<close> and the store as it
  is when the method is entered. The outcome comes with the store as the method leaves
  it and with the inputs handed to the model.
\<close>

definition handle_tool_calls07 ::
  "'a agent07_scheme \<Rightarrow> store \<Rightarrow> tool_call list \<Rightarrow> string \<Rightarrow> llm_input list
     \<Rightarrow> (py_exception + string) \<times> store \<times> llm_input list" where
  "handle_tool_calls07 ag st tool_calls user_input calls =
     (case run_tool_calls07 (tools ag) tool_calls [] of
        Inl e \<Rightarrow> (Inl e, st, calls)
      | Inr tool_results \<Rightarrow>
          (let final = final_input07 (system_prompt ag) user_input tool_results
           in (case llm ag final of
                 Inl e \<Rightarrow> (Inl e, st, calls @ [final])
               | Inr final_response \<Rightarrow>
                   (case extract_response_text final_response of
                      Inl e \<Rightarrow> (Inl e, st, calls @ [final])
                    | Inr response_text \<Rightarrow>
                        (Inr response_text,
                         add_ai_message (chat_history ag) response_text
                           (add_user_message (chat_history ag) user_input st),
                         calls @ [final])))))"

text \<open>
  The body of the \<open>try\<close> of \<open>process_query\<close>. The store goes from the wrapped call to
  what follows it: the tool round and the two \<open>add_..._message\<close> calls work on the
  history as the wrapper has left it.
\<close>

definition query_body07 ::
  "'a agent07_scheme \<Rightarrow> store \<Rightarrow> string
     \<Rightarrow> (py_exception + string) \<times> store \<times> llm_input list" where
  "query_body07 ag st user_input =
     (let first = chain_input ag st user_input (session_id ag)
      in (case chain_with_history_invoke ag st user_input (session_id ag) of
            (Inl e, st1) \<Rightarrow> (Inl e, st1, [first])
          | (Inr response, st1) \<Rightarrow>
              (case tool_calls_requested response of
                 Some (c, tcs) \<Rightarrow> handle_tool_calls07 ag st1 tcs user_input [first]
               | None \<Rightarrow>
                   (case extract_response_text response of
                      Inl e \<Rightarrow> (Inl e, st1, [first])
                    | Inr response_text \<Rightarrow>
                        (Inr response_text,
                         add_ai_message (chat_history ag) response_text
                           (add_user_message (chat_history ag) user_input st1),
                         [first])))))"

text \<open>
  \<open>process_query\<close> of chapter 07: the text returned to the caller, the store after the
  call, and the inputs handed to the model.
\<close>

definition process_query07 ::
  "'a agent07_scheme \<Rightarrow> store \<Rightarrow> string \<Rightarrow> string \<times> store \<times> llm_input list" where
  "process_query07 ag st user_input =
     (case query_body07 ag st user_input of
        (outcome, st', calls) \<Rightarrow> (rendered outcome, st', calls))"

section \<open>Notions used to state the properties\<close>

text \<open>What one block adds to \<open>text_parts\<close>.\<close>

fun block_parts :: "block \<Rightarrow> pyval list" where
  "block_parts (BStr s) = [PStr s]"
| "block_parts (BDict d) = (case d ''text'' of Some v \<Rightarrow> [v] | None \<Rightarrow> [])"
| "block_parts BOther = []"

text \<open>A response is well formed when the blocks of a list-valued content are.\<close>

fun well_formed_response :: "raw_response \<Rightarrow> bool" where
  "well_formed_response (Response (CList blocks) tcs) = list_all text_field_is_str blocks"
| "well_formed_response _ = True"

text \<open>A request is registered when some tool of the registry has its name.\<close>

definition registered :: "tool list \<Rightarrow> tool_call \<Rightarrow> bool" where
  "registered ts tc = (find_tool ts (tc_name tc) \<noteq> None)"

fun tool_call_id_of :: "message \<Rightarrow> string option" where
  "tool_call_id_of (ToolMessage payload call_id) = call_id"
| "tool_call_id_of _ = None"

fun is_tool_message :: "message \<Rightarrow> bool" where
  "is_tool_message (ToolMessage payload call_id) = True"
| "is_tool_message _ = False"

text \<open>What one request contributes to the results of a dispatch round, if anything.\<close>

definition tool_message_for :: "tool list \<Rightarrow> tool_call \<Rightarrow> message option" where
  "tool_message_for ts tc =
     (case find_tool ts (tc_name tc) of
        None \<Rightarrow> None
      | Some t \<Rightarrow>
          Some (ToolMessage
                  (case invoke t (tc_args tc) of
                     Inr result \<Rightarrow> result
                   | Inl e \<Rightarrow> ''Error: '' @ exc_str e)
                  (tc_id tc)))"

definition tool_result_for :: "tool list \<Rightarrow> tool_call \<Rightarrow> (string \<times> string) option" where
  "tool_result_for ts tc =
     (case find_tool ts (tc_name tc) of
        None \<Rightarrow> None
      | Some t \<Rightarrow>
          Some (tc_name tc,
                case invoke t (tc_args tc) of
                  Inr result \<Rightarrow> result
                | Inl e \<Rightarrow> ''Error: '' @ exc_str e))"

text \<open>The answer of a model call is a response that asks for tools.\<close>

fun requests_tools :: "py_exception + raw_response \<Rightarrow> bool" where
  "requests_tools (Inr r) = (tool_calls_requested r \<noteq> None)"
| "requests_tools (Inl e) = False"

section \<open>Sample tools and agents\<close>

definition list_log_files_tool :: tool where
  "list_log_files_tool =
     \<lparr>tool_name = ''list_log_files'', invoke = (\<lambda>args. Inr ''app.log, error.log'')\<rparr>"


definition list_call :: tool_call where
  "list_call = \<lparr>tc_name = ''list_log_files'', tc_args = Map.empty, tc_id = Some ''call_1''\<rparr>"


definition unknown_call :: tool_call where
  "unknown_call = \<lparr>tc_name = ''delete_logs'', tc_args = Map.empty, tc_id = Some ''call_3''\<rparr>"

definition empty_store :: store where
  "empty_store = (\<lambda>ref. [])"

text \<open>The model asks for \<open>list_log_files\<close> first and then gives its final answer.\<close>

definition scenario_agent :: agent07 where
  "scenario_agent =
     \<lparr>tools = [list_log_files_tool],
      llm = (\<lambda>inp. Inr (Response (CStr ''You have two log files: app.log and error.log.'') [])),
      llm_with_tools = (\<lambda>inp. Inr (Response (CStr []) [list_call])),
      system_prompt = ''You are a DevOps expert specializing in log analysis.'',
      chat_history = 0,
      session_id = ''default_session''\<rparr>"


text \<open>Every model call raises.\<close>

definition offline_agent :: agent07 where
  "offline_agent =
     \<lparr>tools = [list_log_files_tool],
      llm = (\<lambda>inp. Inl (PyException ''ConnectionError'' ''connection refused'')),
      llm_with_tools = (\<lambda>inp. Inl (PyException ''ConnectionError'' ''connection refused'')),
      system_prompt = ''You are a DevOps expert specializing in log analysis.'',
      chat_history = 0,
      session_id = ''default_session''\<rparr>"

text \<open>The model asks for \<open>list_log_files\<close>; the call for the final answer raises.\<close>

definition flaky_agent :: agent07 where
  "flaky_agent =
     \<lparr>tools = [list_log_files_tool],
      llm = (\<lambda>inp. Inl (PyException ''ConnectionError'' ''connection refused'')),
      llm_with_tools = (\<lambda>inp. Inr (Response (CStr []) [list_call])),
      system_prompt = ''You are a DevOps expert specializing in log analysis.'',
      chat_history = 0,
      session_id = ''default_session''\<rparr>"

text \<open>The model answers at once, with no tool.\<close>

definition direct_agent :: agent07 where
  "direct_agent =
     \<lparr>tools = [list_log_files_tool],
      llm = (\<lambda>inp. Inr (Response (CStr ''Hello.'') [])),
      llm_with_tools = (\<lambda>inp. Inr (Response (CStr ''Hello.'') [])),
      system_prompt = ''You are a DevOps expert specializing in log analysis.'',
      chat_history = 0,
      session_id = ''alice''\<rparr>"

text \<open>The model asks for a tool on every turn.\<close>

definition looping_agent :: agent where
  "looping_agent =
     \<lparr>tools = [list_log_files_tool],
      llm = (\<lambda>inp. Inr (Response (CStr ''Done.'') [])),
      llm_with_tools = (\<lambda>inp. Inr (Response (CStr ''Let me check the logs.'') [list_call])),
      system_prompt = ''You are a DevOps expert specializing in log analysis.''\<rparr>"

section \<open>The response normalizer\<close>

lemma collect_text_parts_acc:
  "collect_text_parts bs acc = acc @ concat (map block_parts bs)"
  by (induction bs arbitrary: acc) (simp_all split: block.splits option.splits)

lemma str_join_strings: "str_join i (map PStr ss) = Inr (concat ss)"
  by (induction ss arbitrary: i) simp_all

lemma block_parts_well_formed:
  "text_field_is_str b \<Longrightarrow>
     block_parts b = map PStr (case textual_portion b of None \<Rightarrow> [] | Some s \<Rightarrow> [s])"
  by (cases b) (simp_all split: option.splits pyval.splits)

lemma collect_text_parts_well_formed:
  "list_all text_field_is_str bs \<Longrightarrow>
     collect_text_parts bs [] = map PStr (List.map_filter textual_portion bs)"
  unfolding collect_text_parts_acc
  by (induction bs)
     (simp_all add: List.map_filter_simps block_parts_well_formed split: option.splits)

lemma well_formed_response_text:
  "well_formed_response r \<Longrightarrow> \<exists>t. extract_response_text r = Inr t"
  by (cases r rule: extract_response_text.cases)
     (simp_all add: collect_text_parts_well_formed str_join_strings)

text \<open>
  A text field that holds something other than a string makes \<open>str.join\<close> raise: the
  normalizer then raises \<open>TypeError\<close> instead of returning a text.
\<close>

lemma extract_text_non_string_field:
  "extract_response_text (Response (CList [BStr ''x'', BDict [''text'' \<mapsto> PInt 1]]) [])
     = Inl (PyException ''TypeError'' ''sequence item 1: expected str instance, int found'')"
  by (simp add: show_nat.simps)

text \<open>
  Claim C8. For a response whose content is a sequence of blocks in which every text
  field holds a string, \<open>extract_response_text\<close> returns the concatenation, in input
  order and with nothing added between the parts, of the textual portion of each block;
  a block that carries no text adds nothing.
\<close>

theorem extract_text_blocks:
  assumes "list_all text_field_is_str blocks"
  shows "extract_response_text (Response (CList blocks) tcs)
           = Inr (concat (List.map_filter textual_portion blocks))"
  using assms by (simp add: collect_text_parts_well_formed str_join_strings)

text \<open>The block sequence \<open>[{text: "a"}, "b", {other: 1}]\<close> yields \<open>"ab"\<close>.\<close>

theorem extract_text_blocks_witness:
  "list_all text_field_is_str
     [BDict [''text'' \<mapsto> PStr ''a''], BStr ''b'', BDict [''other'' \<mapsto> PInt 1]]
   \<and> extract_response_text
        (Response
           (CList [BDict [''text'' \<mapsto> PStr ''a''], BStr ''b'', BDict [''other'' \<mapsto> PInt 1]])
           [])
       = Inr ''ab''"
  using extract_text_blocks
          [of "[BDict [''text'' \<mapsto> PStr ''a''], BStr ''b'', BDict [''other'' \<mapsto> PInt 1]]" "[]"]
  by (simp add: List.map_filter_simps)

text \<open>
  Claim C9. A plain string is returned unchanged, and so is a string-valued content;
  normalizing the result of normalizing a plain string gives the same result again.
\<close>

theorem extract_text_plain_string:
  "extract_response_text (PlainString x) = Inr x
   \<and> extract_response_text (Response (CStr x) tcs) = Inr x
   \<and> (case extract_response_text (PlainString x) of
         Inl e \<Rightarrow> Inl e
       | Inr y \<Rightarrow> extract_response_text (PlainString y))
      = extract_response_text (PlainString x)"
  by simp

section \<open>The tool-call dispatcher\<close>

lemma execute_tool_calls_acc:
  "execute_tool_calls ts reqs acc = acc @ List.map_filter (tool_message_for ts) reqs"
  by (induction reqs arbitrary: acc)
     (simp_all add: List.map_filter_simps tool_message_for_def split: option.splits sum.splits)

lemma map_filter_ids:
  "map tool_call_id_of (List.map_filter (tool_message_for ts) reqs)
     = map tc_id (filter (registered ts) reqs)"
  by (induction reqs)
     (simp_all add: List.map_filter_simps tool_message_for_def registered_def split: option.splits)

lemma map_filter_tool_messages:
  "list_all is_tool_message (List.map_filter (tool_message_for ts) reqs)"
  by (induction reqs)
     (simp_all add: List.map_filter_simps tool_message_for_def split: option.splits)

lemma collect_tool_results_acc:
  "collect_tool_results ts reqs acc = acc @ List.map_filter (tool_result_for ts) reqs"
  by (induction reqs arbitrary: acc)
     (simp_all add: List.map_filter_simps tool_result_for_def split: option.splits sum.splits)

lemma map_filter_names:
  "map fst (List.map_filter (tool_result_for ts) reqs)
     = map tc_name (filter (registered ts) reqs)"
  by (induction reqs)
     (simp_all add: List.map_filter_simps tool_result_for_def registered_def split: option.splits)

text \<open>
  Claim C1, as the code has it. Dispatching the requests of one assistant response
  produces exactly one result per request whose tool name is registered, in the order of
  the input and carrying the call id of its request (chapter 09) or its tool name
  (chapter 08). A request whose tool name is not registered produces no result.
\<close>

theorem dispatch_one_result_per_registered_request:
  "map tool_call_id_of (execute_tool_calls ts reqs []) = map tc_id (filter (registered ts) reqs)
   \<and> list_all is_tool_message (execute_tool_calls ts reqs [])
   \<and> length (execute_tool_calls ts reqs []) = length (filter (registered ts) reqs)
   \<and> map fst (collect_tool_results ts reqs []) = map tc_name (filter (registered ts) reqs)"
proof -
  have "length (map tool_call_id_of (List.map_filter (tool_message_for ts) reqs))
          = length (map tc_id (filter (registered ts) reqs))"
    by (simp only: map_filter_ids)
  then have "length (List.map_filter (tool_message_for ts) reqs)
               = length (filter (registered ts) reqs)"
    by simp
  then show ?thesis
    by (simp add: execute_tool_calls_acc collect_tool_results_acc map_filter_ids
        map_filter_tool_messages map_filter_names)
qed

theorem dispatch_one_result_per_registered_request_witness:
  "map tool_call_id_of (execute_tool_calls [list_log_files_tool] [unknown_call, list_call] [])
     = [Some ''call_1'']
   \<and> map fst (collect_tool_results [list_log_files_tool] [unknown_call, list_call] [])
     = [''list_log_files'']"
  using dispatch_one_result_per_registered_request
          [of "[list_log_files_tool]" "[unknown_call, list_call]"]
  by (simp add: registered_def list_log_files_tool_def unknown_call_def list_call_def)

text \<open>
  A request for \<open>delete_logs\<close>, which the registry does not have, gets no result at all:
  one request goes in and nothing comes out.
\<close>

theorem dispatch_drops_unregistered_request:
  "execute_tool_calls [list_log_files_tool] [unknown_call] [] = []
   \<and> length (execute_tool_calls [list_log_files_tool] [unknown_call] []) \<noteq> length [unknown_call]
   \<and> collect_tool_results [list_log_files_tool] [unknown_call] [] = []"
  by (simp add: list_log_files_tool_def unknown_call_def)

section \<open>The agent loop of chapter 09\<close>

lemma process_query_cap_raise:
  assumes "llm_with_tools ag (PromptMessages (format_messages (system_prompt ag)
             (case chat_history_arg of None \<Rightarrow> [] | Some h \<Rightarrow> h) user_input)) = Inl e"
  shows "process_query_cap cap ag user_input chat_history_arg
           = (error_msg e, [PromptMessages (format_messages (system_prompt ag)
                (case chat_history_arg of None \<Rightarrow> [] | Some h \<Rightarrow> h) user_input)])"
  using assms by (simp add: process_query_cap_def Let_def)

lemma process_query_cap_direct:
  assumes "llm_with_tools ag (PromptMessages (format_messages (system_prompt ag)
             (case chat_history_arg of None \<Rightarrow> [] | Some h \<Rightarrow> h) user_input)) = Inr r"
    and "tool_calls_requested r = None"
  shows "process_query_cap cap ag user_input chat_history_arg
           = (rendered (extract_response_text r),
              [PromptMessages (format_messages (system_prompt ag)
                (case chat_history_arg of None \<Rightarrow> [] | Some h \<Rightarrow> h) user_input)])"
  using assms by (simp add: process_query_cap_def Let_def)

lemma process_query_cap_loop:
  assumes "llm_with_tools ag (PromptMessages (format_messages (system_prompt ag)
             (case chat_history_arg of None \<Rightarrow> [] | Some h \<Rightarrow> h) user_input)) = Inr r"
    and "tool_calls_requested r \<noteq> None"
  shows "process_query_cap cap ag user_input chat_history_arg
           = (rendered (fst (agent_loop ag cap 0 r
                (format_messages (system_prompt ag)
                   (case chat_history_arg of None \<Rightarrow> [] | Some h \<Rightarrow> h) user_input)
                [PromptMessages (format_messages (system_prompt ag)
                   (case chat_history_arg of None \<Rightarrow> [] | Some h \<Rightarrow> h) user_input)])),
              snd (agent_loop ag cap 0 r
                (format_messages (system_prompt ag)
                   (case chat_history_arg of None \<Rightarrow> [] | Some h \<Rightarrow> h) user_input)
                [PromptMessages (format_messages (system_prompt ag)
                   (case chat_history_arg of None \<Rightarrow> [] | Some h \<Rightarrow> h) user_input)]))"
  using assms
  by (auto simp add: process_query_cap_def handle_tool_calls_cap_def Let_def split: prod.splits)

text \<open>One turn of the loop adds at most one model call, and there are at most
  \<open>max_iter - iteration\<close> turns left.\<close>

lemma agent_loop_calls_bound:
  "length (snd (agent_loop ag max_iter iteration r ms calls))
     \<le> length calls + (max_iter - iteration)"
proof (induction ag max_iter iteration r ms calls rule: agent_loop.induct)
  case (1 ag max_iter iteration current_response messages calls)
  show ?case
  proof (cases "iteration < max_iter")
    case False
    then show ?thesis by (simp add: agent_loop.simps)
  next
    case True
    show ?thesis
    proof (cases "tool_calls_requested current_response")
      case None
      with True show ?thesis by (simp add: agent_loop.simps)
    next
      case (Some p)
      obtain c tcs where p: "p = (c, tcs)" by (cases p)
      let ?ms = "messages @ [AIMessage c tcs] @ execute_tool_calls (tools ag) tcs []"
      show ?thesis
      proof (cases "llm_with_tools ag (PromptMessages ?ms)")
        case (Inl e)
        with True Some p show ?thesis
          by (simp add: agent_loop.simps [of ag max_iter iteration])
      next
        case (Inr next_response)
        from "1.IH" [OF True Some p [symmetric] refl refl Inr] True Some p Inr
        show ?thesis
          by (simp add: agent_loop.simps [of ag max_iter iteration] Let_def)
      qed
    qed
  qed
qed

text \<open>The loop only ever extends the record of the model calls.\<close>

lemma agent_loop_calls_prefix:
  "\<exists>more. snd (agent_loop ag max_iter iteration r ms calls) = calls @ more"
proof (induction ag max_iter iteration r ms calls rule: agent_loop.induct)
  case (1 ag max_iter iteration current_response messages calls)
  show ?case
  proof (cases "iteration < max_iter")
    case False
    then show ?thesis by (simp add: agent_loop.simps)
  next
    case True
    show ?thesis
    proof (cases "tool_calls_requested current_response")
      case None
      with True show ?thesis by (simp add: agent_loop.simps)
    next
      case (Some p)
      obtain c tcs where p: "p = (c, tcs)" by (cases p)
      let ?ms = "messages @ [AIMessage c tcs] @ execute_tool_calls (tools ag) tcs []"
      show ?thesis
      proof (cases "llm_with_tools ag (PromptMessages ?ms)")
        case (Inl e)
        with True Some p show ?thesis
          by (simp add: agent_loop.simps [of ag max_iter iteration])
      next
        case (Inr next_response)
        from "1.IH" [OF True Some p [symmetric] refl refl Inr] True Some p Inr
        show ?thesis
          by (auto simp add: agent_loop.simps [of ag max_iter iteration] Let_def)
      qed
    qed
  qed
qed

text \<open>
  Claim C2. Whatever the cap, the tools and the model do, one call of \<open>process_query\<close>
  hands at most \<open>cap + 1\<close> inputs to the model: the first call and at most one per turn
  of the loop. The loop of chapter 09 is written with the cap 5, so it makes at most 6.
\<close>

theorem model_calls_within_cap:
  "length (snd (process_query_cap cap ag user_input chat_history_arg)) \<le> cap + 1
   \<and> length (snd (process_query09 ag user_input chat_history_arg)) \<le> max_iterations + 1
   \<and> max_iterations = 5"
proof -
  define ms where "ms = format_messages (system_prompt ag)
    (case chat_history_arg of None \<Rightarrow> [] | Some h \<Rightarrow> h) user_input"
  have bound: "length (snd (process_query_cap n ag user_input chat_history_arg)) \<le> n + 1" for n
  proof (cases "llm_with_tools ag (PromptMessages ms)")
    case (Inl e)
    then show ?thesis
      using process_query_cap_raise [of ag chat_history_arg user_input e n]
      by (simp add: ms_def)
  next
    case (Inr r)
    show ?thesis
    proof (cases "tool_calls_requested r")
      case None
      with Inr show ?thesis
        using process_query_cap_direct [of ag chat_history_arg user_input r n]
        by (simp add: ms_def)
    next
      case (Some p)
      with Inr have "snd (process_query_cap n ag user_input chat_history_arg)
                       = snd (agent_loop ag n 0 r ms [PromptMessages ms])"
        using process_query_cap_loop [of ag chat_history_arg user_input r n]
        by (simp add: ms_def)
      with agent_loop_calls_bound [of ag n 0 r ms "[PromptMessages ms]"]
      show ?thesis by simp
    qed
  qed
  from bound [of cap] bound [of max_iterations] show ?thesis
    by (simp add: process_query09_def max_iterations_def)
qed

theorem model_calls_within_cap_witness:
  "length (snd (process_query09 looping_agent ''list log files'' None)) \<le> 6"
  using model_calls_within_cap [of max_iterations looping_agent "''list log files''" None]
  by simp

text \<open>
  The invariant of the loop when the model keeps asking for tools: the current response
  is the answer to the last call made, and every turn adds one call until the counter
  reaches the cap.
\<close>

lemma agent_loop_budget:
  assumes "\<forall>inp \<in> set (snd (agent_loop ag max_iter iteration r ms calls)).
             requests_tools (llm_with_tools ag inp)"
    and "calls \<noteq> []" and "llm_with_tools ag (last calls) = Inr r"
    and "iteration \<le> max_iter"
  shows "length (snd (agent_loop ag max_iter iteration r ms calls))
           = length calls + (max_iter - iteration)
         \<and> (\<exists>r'. llm_with_tools ag (last (snd (agent_loop ag max_iter iteration r ms calls)))
                    = Inr r'
                \<and> tool_calls_requested r' \<noteq> None
                \<and> fst (agent_loop ag max_iter iteration r ms calls) = extract_response_text r')"
  using assms
proof (induction ag max_iter iteration r ms calls rule: agent_loop.induct)
  case (1 ag max_iter iteration current_response messages calls)
  let ?run = "agent_loop ag max_iter iteration current_response messages calls"
  obtain more where more: "snd ?run = calls @ more"
    using agent_loop_calls_prefix by blast
  with "1.prems" have "last calls \<in> set (snd ?run)" by simp
  with "1.prems" have req: "tool_calls_requested current_response \<noteq> None"
    by (metis requests_tools.simps(1))
  show ?case
  proof (cases "iteration < max_iter")
    case False
    with "1.prems" req show ?thesis by (simp add: agent_loop.simps)
  next
    case True
    from req obtain c tcs where Some: "tool_calls_requested current_response = Some (c, tcs)"
      by auto
    let ?ms = "messages @ [AIMessage c tcs] @ execute_tool_calls (tools ag) tcs []"
    show ?thesis
    proof (cases "llm_with_tools ag (PromptMessages ?ms)")
      case (Inl e)
      with True Some have "snd ?run = calls @ [PromptMessages ?ms]"
        by (simp add: agent_loop.simps [of ag max_iter iteration])
      with "1.prems"(1) Inl show ?thesis by simp
    next
      case (Inr next_response)
      from True Some Inr have step:
        "?run = agent_loop ag max_iter (Suc iteration) next_response ?ms
                  (calls @ [PromptMessages ?ms])"
        by (simp add: agent_loop.simps [of ag max_iter iteration] Let_def)
      from "1.IH" [OF True Some refl refl refl Inr] "1.prems"(1) Inr True
      show ?thesis
        unfolding step by simp
    qed
  qed
qed

text \<open>
  Claim C6. When every model call of a run is answered by a response that still asks
  for tools, the loop stops with the counter at the cap: the model has been called
  \<open>cap + 1\<close> times (the first call and one after each of the \<open>cap\<close> dispatch rounds), and
  what \<open>process_query\<close> returns is the normalized text of the response to the last call.
  For a well-formed response that is the text itself, not an error message.
\<close>

theorem budget_exhausted_returns_last_text:
  assumes "\<forall>inp \<in> set (snd (process_query_cap cap ag user_input chat_history_arg)).
             requests_tools (llm_with_tools ag inp)"
  shows "length (snd (process_query_cap cap ag user_input chat_history_arg)) = cap + 1
         \<and> (\<exists>r. llm_with_tools ag
                    (last (snd (process_query_cap cap ag user_input chat_history_arg))) = Inr r
               \<and> tool_calls_requested r \<noteq> None
               \<and> fst (process_query_cap cap ag user_input chat_history_arg)
                   = rendered (extract_response_text r)
               \<and> (well_formed_response r \<longrightarrow>
                    extract_response_text r
                      = Inr (fst (process_query_cap cap ag user_input chat_history_arg))))"
proof -
  define ms where "ms = format_messages (system_prompt ag)
    (case chat_history_arg of None \<Rightarrow> [] | Some h \<Rightarrow> h) user_input"
  let ?res = "process_query_cap cap ag user_input chat_history_arg"
  have first_in: "PromptMessages ms \<in> set (snd ?res)"
  proof (cases "llm_with_tools ag (PromptMessages ms)")
    case (Inl e)
    then show ?thesis
      using process_query_cap_raise [of ag chat_history_arg user_input e cap]
      by (simp add: ms_def)
  next
    case (Inr r)
    show ?thesis
    proof (cases "tool_calls_requested r")
      case None
      with Inr show ?thesis
        using process_query_cap_direct [of ag chat_history_arg user_input r cap]
        by (simp add: ms_def)
    next
      case (Some p)
      with Inr have "snd ?res = snd (agent_loop ag cap 0 r ms [PromptMessages ms])"
        using process_query_cap_loop [of ag chat_history_arg user_input r cap]
        by (simp add: ms_def)
      with agent_loop_calls_prefix [of ag cap 0 r ms "[PromptMessages ms]"]
      show ?thesis by auto
    qed
  qed
  with assms have "requests_tools (llm_with_tools ag (PromptMessages ms))" by blast
  then obtain r1 where r1: "llm_with_tools ag (PromptMessages ms) = Inr r1"
    and req1: "tool_calls_requested r1 \<noteq> None"
    by (cases "llm_with_tools ag (PromptMessages ms)") auto
  let ?loop = "agent_loop ag cap 0 r1 ms [PromptMessages ms]"
  from r1 req1 have res: "?res = (rendered (fst ?loop), snd ?loop)"
    using process_query_cap_loop [of ag chat_history_arg user_input r1 cap]
    by (simp add: ms_def)
  with assms have "\<forall>inp \<in> set (snd ?loop). requests_tools (llm_with_tools ag inp)"
    by simp
  from agent_loop_budget [OF this] r1
  obtain r where len: "length (snd ?loop) = cap + 1"
    and last: "llm_with_tools ag (last (snd ?loop)) = Inr r"
    and req: "tool_calls_requested r \<noteq> None"
    and out: "fst ?loop = extract_response_text r"
    by auto
  from well_formed_response_text [of r]
  have "well_formed_response r \<longrightarrow>
          extract_response_text r = Inr (rendered (extract_response_text r))"
    by auto
  with len last req out show ?thesis
    unfolding res by auto
qed

text \<open>
  With the cap 2 and a model that asks for a tool on every turn, the third response
  included, the loop makes three model calls and returns the text of the third response.
\<close>

theorem budget_exhausted_returns_last_text_witness:
  "list_all (\<lambda>inp. requests_tools (llm_with_tools looping_agent inp))
     (snd (process_query_cap 2 looping_agent ''list log files'' None))
   \<and> length (snd (process_query_cap 2 looping_agent ''list log files'' None)) = 3
   \<and> fst (process_query_cap 2 looping_agent ''list log files'' None) = ''Let me check the logs.''"
proof -
  have hyp: "\<forall>inp \<in> set (snd (process_query_cap 2 looping_agent ''list log files'' None)).
      requests_tools (llm_with_tools looping_agent inp)"
    by (simp add: looping_agent_def)
  from budget_exhausted_returns_last_text [OF hyp] hyp show ?thesis
    by (auto simp: looping_agent_def list_all_iff)
qed

text \<open>
  Claim C10. Calling \<open>process_query\<close> with the history omitted (\<open>None\<close>) gives the same
  result, after the same model calls, as calling it with the empty list, in chapter 08
  and in chapter 09.
\<close>

theorem none_history_is_empty_history:
  "process_query08 ag user_input None = process_query08 ag user_input (Some [])
   \<and> process_query09 ag user_input None = process_query09 ag user_input (Some [])"
  by (simp add: process_query08_def process_query09_def process_query_cap_def)

section \<open>Exceptions raised by tools\<close>








section \<open>The conversation memory of chapter 07\<close>

text \<open>
  A body that ends with a text has had its first model call answered, and the history
  then holds what the wrapper recorded for that call followed by the user turn and the
  assistant turn that \<open>process_query\<close> adds itself.
\<close>

lemma query_body07_success:
  assumes "query_body07 ag st user_input = (Inr response_text, st', calls)"
  shows "\<exists>r. llm_with_tools ag (chain_input ag st user_input (session_id ag)) = Inr r
           \<and> st' = st (chat_history ag :=
                 st (chat_history ag) @ wrapper_record user_input r
                   @ [HumanMessage user_input, AIMessage (CStr response_text) []])"
  using assms
  by (auto simp: query_body07_def chain_with_history_invoke_def get_session_history_def
        handle_tool_calls07_def Let_def add_user_message_def add_ai_message_def
      split: sum.splits option.splits prod.splits)

text \<open>When the first model call raises, the wrapper records nothing.\<close>

lemma process_query07_first_call_raises:
  assumes "llm_with_tools ag (chain_input ag st user_input (session_id ag)) = Inl e"
  shows "process_query07 ag st user_input
           = (error_msg e, st, [chain_input ag st user_input (session_id ag)])"
  using assms
  by (simp add: process_query07_def query_body07_def chain_with_history_invoke_def Let_def)

text \<open>
  Claim C5 says that a turn which completes adds two turns to the memory, one of the
  user and one of the assistant, and none of a tool round. The chapter 07 agent adds
  four. The user asks to list the log files, the model asks for \<open>list_log_files\<close> and
  then answers; the history, empty before, then holds the human message and the
  tool-requesting assistant message that the history wrapper recorded, followed by the
  human message and the final assistant message that \<open>_handle_tool_calls\<close> adds.
\<close>

theorem chapter07_turn_records_four_turns:
  "fst (process_query07 scenario_agent empty_store ''list log files'')
     = ''You have two log files: app.log and error.log.''
   \<and> get_history scenario_agent empty_store = []
   \<and> get_history scenario_agent
        (fst (snd (process_query07 scenario_agent empty_store ''list log files'')))
       = [HumanMessage ''list log files'',
          AIMessage (CStr []) [list_call],
          HumanMessage ''list log files'',
          AIMessage (CStr ''You have two log files: app.log and error.log.'') []]"
  by (simp add: process_query07_def query_body07_def chain_with_history_invoke_def
      handle_tool_calls07_def Let_def scenario_agent_def list_call_def
      list_log_files_tool_def get_history_def get_session_history_def empty_store_def
      add_user_message_def add_ai_message_def)

text \<open>
  Claim C7 says that an exception of a model call leaves the memory as it was before the
  call. In the chapter 07 agent that is so for the first model call only. Here the model
  asks for \<open>list_log_files\<close>, the tool answers, and the call for the final answer
  raises: \<open>process_query\<close> returns the error text, and the history, empty before, holds
  the human message and the tool-requesting assistant message that the history wrapper
  recorded after the first call.
\<close>

theorem chapter07_final_call_failure_keeps_two_turns:
  "fst (process_query07 flaky_agent empty_store ''list log files'')
     = ''Error processing query: connection refused''
   \<and> get_history flaky_agent empty_store = []
   \<and> get_history flaky_agent
        (fst (snd (process_query07 flaky_agent empty_store ''list log files'')))
       = [HumanMessage ''list log files'', AIMessage (CStr []) [list_call]]"
  by (simp add: process_query07_def query_body07_def chain_with_history_invoke_def
      handle_tool_calls07_def Let_def flaky_agent_def list_call_def
      list_log_files_tool_def get_history_def get_session_history_def empty_store_def
      error_msg_def)

text \<open>
  Claim C3, as the code has it. The factory given to the history wrapper returns the one
  history of the agent for every session key. So two session keys, equal or not, resolve
  to the same memory and have the same snapshot, and the turns of an utterance processed
  under one key are in the snapshot taken under any other key: that snapshot is the one
  from before the call, extended, with the user turn and the assistant turn at its end.
\<close>

theorem sessions_share_one_memory:
  "get_session_history ag key1 = get_session_history ag key2
   \<and> get_session_history ag key1 = chat_history ag
   \<and> session_snapshot ag st key2 = session_snapshot ag st key1
   \<and> (query_body07 (ag\<lparr>session_id := key1\<rparr>) st user_input = (Inr response_text, st', calls)
      \<longrightarrow> (\<exists>recorded. session_snapshot ag st' key2
            = session_snapshot ag st key2 @ recorded
                @ [HumanMessage user_input, AIMessage (CStr response_text) []]))"
proof (intro conjI impI)
  assume "query_body07 (ag\<lparr>session_id := key1\<rparr>) st user_input
            = (Inr response_text, st', calls)"
  from query_body07_success [OF this]
  show "\<exists>recorded. session_snapshot ag st' key2
            = session_snapshot ag st key2 @ recorded
                @ [HumanMessage user_input, AIMessage (CStr response_text) []]"
    by (auto simp add: session_snapshot_def get_session_history_def)
qed (simp_all add: get_session_history_def session_snapshot_def)

theorem sessions_share_one_memory_witness:
  "get_session_history direct_agent ''alice'' = get_session_history direct_agent ''bob''
   \<and> (\<exists>recorded.
         session_snapshot direct_agent
           (fst (snd (process_query07 (direct_agent\<lparr>session_id := ''alice''\<rparr>) empty_store
                        ''hello'')))
           ''bob''
         = recorded @ [HumanMessage ''hello'', AIMessage (CStr ''Hello.'') []])"
proof -
  obtain st' calls where body:
    "query_body07 (direct_agent\<lparr>session_id := ''alice''\<rparr>) empty_store ''hello''
       = (Inr ''Hello.'', st', calls)"
    by (simp add: query_body07_def chain_with_history_invoke_def Let_def direct_agent_def)
  with sessions_share_one_memory [where ag = direct_agent and ?key1.0 = "''alice''"
      and ?key2.0 = "''bob''" and user_input = "''hello''" and st = empty_store
      and response_text = "''Hello.''" and st' = st' and calls = calls]
  show ?thesis
    by (simp add: process_query07_def session_snapshot_def empty_store_def)
qed

text \<open>
  The keys \<open>alice\<close> and \<open>bob\<close> differ, yet they resolve to the same history, and the
  utterance processed under \<open>alice\<close> shows in the snapshot of \<open>bob\<close>, which was empty
  before.
\<close>

theorem distinct_session_keys_share_memory:
  "''alice'' \<noteq> ''bob''
   \<and> get_session_history direct_agent ''alice'' = get_session_history direct_agent ''bob''
   \<and> session_snapshot direct_agent empty_store ''bob'' = []
   \<and> session_snapshot direct_agent
        (fst (snd (process_query07 (direct_agent\<lparr>session_id := ''alice''\<rparr>) empty_store
                     ''hello'')))
        ''bob''
       = [HumanMessage ''hello'', AIMessage (CStr ''Hello.'') [],
          HumanMessage ''hello'', AIMessage (CStr ''Hello.'') []]"
  by (simp add: process_query07_def query_body07_def chain_with_history_invoke_def Let_def
      direct_agent_def session_snapshot_def get_session_history_def empty_store_def
      add_user_message_def add_ai_message_def)

end
